theory Spec2Isabelle
  imports Main "HOL-Library.Word"
begin

section \<open>Index arrays: the storage behind \<open>range\<close> and \<open>id\<close>\<close>

text \<open>
  \<open>size_t\<close> is a 64-bit unsigned integer on the x86_64 target of the library, and
  \<open>unsigned int\<close> a 32-bit one. Arithmetic on words wraps around as the C++ arithmetic
  on unsigned types does.
\<close>

type_synonym size_t = "64 word"
type_synonym unsigned_int = "32 word"

text \<open>
  The ways an operation of the model can fail. \<open>AssertionFailed\<close> is a failed
  \<open>COMPUTECPP_ASSERT\<close>; \<open>OutOfBounds\<close> a read or write past the end of a C array;
  \<open>DivisionByZero\<close> an integer division or remainder with divisor 0 (undefined behaviour
  in C++); \<open>TARGET_FORMAT_ERROR\<close> the error code of that name in
  \<open>detail::cpp_error_code\<close>.
\<close>

datatype error = AssertionFailed | OutOfBounds | DivisionByZero | TARGET_FORMAT_ERROR

definition bind_result :: "error + 'a \<Rightarrow> ('a \<Rightarrow> error + 'b) \<Rightarrow> error + 'b" where
  "bind_result m f = (case m of Inl e \<Rightarrow> Inl e | Inr v \<Rightarrow> f v)"

text \<open>Modelled from the spec: \<open>COMPUTECPP_ASSERT\<close> (header \<open>SYCL/assert.h\<close>, not among the
  sources). The assertion passes when its condition holds and is the error branch of the
  enclosing operation otherwise.
\<close>

definition COMPUTECPP_ASSERT :: "bool \<Rightarrow> error + unit" where
  "COMPUTECPP_ASSERT cond = (if cond then Inr () else Inl AssertionFailed)"

text \<open>
  \<open>class index_array\<close> holds \<open>size_t m_idx[3]\<close>: exactly three elements.
\<close>

datatype index_array = Index_array (idx0: size_t) (idx1: size_t) (idx2: size_t)

text \<open>The raw array accesses \<open>m_idx[n]\<close> and \<open>m_idx[n] = v\<close> on the three-element array.\<close>

definition m_idx_read :: "index_array \<Rightarrow> nat \<Rightarrow> error + size_t" where
  "m_idx_read a n =
     (if n = 0 then Inr (idx0 a)
      else if n = 1 then Inr (idx1 a)
      else if n = 2 then Inr (idx2 a)
      else Inl OutOfBounds)"

definition m_idx_write :: "index_array \<Rightarrow> nat \<Rightarrow> size_t \<Rightarrow> error + index_array" where
  "m_idx_write a n v =
     (if n = 0 then Inr (Index_array v (idx1 a) (idx2 a))
      else if n = 1 then Inr (Index_array (idx0 a) v (idx2 a))
      else if n = 2 then Inr (Index_array (idx0 a) (idx1 a) v)
      else Inl OutOfBounds)"

text \<open>\<open>index_array::operator[]\<close>, the const one (a read) and the one returning a
  reference, used as the target of an assignment.\<close>

definition index_array_subscript :: "index_array \<Rightarrow> unsigned_int \<Rightarrow> error + size_t" where
  "index_array_subscript a dimension =
     bind_result (COMPUTECPP_ASSERT (dimension < 3))
       (\<lambda>_. m_idx_read a (unat dimension))"

definition index_array_assign ::
  "index_array \<Rightarrow> unsigned_int \<Rightarrow> size_t \<Rightarrow> error + index_array" where
  "index_array_assign a dimension v =
     bind_result (COMPUTECPP_ASSERT (dimension < 3))
       (\<lambda>_. m_idx_write a (unat dimension) v)"

text \<open>
  \<open>class index_array_base\<close> holds one \<open>index_array m_idx\<close>. Its \<open>operator[]\<close> asserts and
  then goes through \<open>index_array::operator[]\<close>, which asserts again. The classes
  \<open>index_array_operators<dims, Child>\<close>, \<open>range<dims>\<close> and \<open>id<dims>\<close> derive from it
  without adding a field; the template arguments are explicit arguments of the model.
\<close>

record index_array_base =
  m_idx :: index_array

definition index_array_base_subscript ::
  "index_array_base \<Rightarrow> unsigned_int \<Rightarrow> error + size_t" where
  "index_array_base_subscript b dimension =
     bind_result (COMPUTECPP_ASSERT (dimension < 3))
       (\<lambda>_. index_array_subscript (m_idx b) dimension)"

definition index_array_base_assign ::
  "index_array_base \<Rightarrow> unsigned_int \<Rightarrow> size_t \<Rightarrow> error + index_array_base" where
  "index_array_base_assign b dimension v =
     bind_result (COMPUTECPP_ASSERT (dimension < 3))
       (\<lambda>_. bind_result (index_array_assign (m_idx b) dimension v)
          (\<lambda>a. Inr (b\<lparr>m_idx := a\<rparr>)))"

text \<open>
  With a literal index 0, 1 or 2 the assertion of \<open>operator[]\<close> holds and the access is
  the element itself (lemmas \<open>index_array_base_subscript_literal\<close> and
  \<open>index_array_base_assign_literal\<close> below). Such accesses, \<open>x[0]\<close>, \<open>x[1]\<close>, \<open>x[2]\<close> and
  \<open>x[0] = v\<close>, \<open>x[1] = v\<close>, \<open>x[2] = v\<close>, are written \<open>at0 x\<close>, ... and \<open>put0 v x\<close>, ...
\<close>

definition at0 :: "index_array_base \<Rightarrow> size_t" where "at0 x = idx0 (m_idx x)"
definition at1 :: "index_array_base \<Rightarrow> size_t" where "at1 x = idx1 (m_idx x)"
definition at2 :: "index_array_base \<Rightarrow> size_t" where "at2 x = idx2 (m_idx x)"

definition put0 :: "size_t \<Rightarrow> index_array_base \<Rightarrow> index_array_base" where
  "put0 v x = x\<lparr>m_idx := Index_array v (idx1 (m_idx x)) (idx2 (m_idx x))\<rparr>"
definition put1 :: "size_t \<Rightarrow> index_array_base \<Rightarrow> index_array_base" where
  "put1 v x = x\<lparr>m_idx := Index_array (idx0 (m_idx x)) v (idx2 (m_idx x))\<rparr>"
definition put2 :: "size_t \<Rightarrow> index_array_base \<Rightarrow> index_array_base" where
  "put2 v x = x\<lparr>m_idx := Index_array (idx0 (m_idx x)) (idx1 (m_idx x)) v\<rparr>"

text \<open>
  The three-argument constructor \<open>index_array_base(x, y, z)\<close> assigns the three elements
  in turn; \<open>index_array_operators(a, b, c)\<close> forwards to it.
\<close>

definition index_array_base_ctor :: "size_t \<Rightarrow> size_t \<Rightarrow> size_t \<Rightarrow> index_array_base" where
  "index_array_base_ctor x y z = \<lparr>m_idx = Index_array x y z\<rparr>"

definition index_array_operators_ctor ::
  "size_t \<Rightarrow> size_t \<Rightarrow> size_t \<Rightarrow> index_array_base" where
  "index_array_operators_ctor a b c = index_array_base_ctor a b c"


section \<open>\<open>range<dimensions>\<close> and \<open>id<dimensions>\<close>\<close>

text \<open>
  The template argument \<open>dimensions\<close>: the \<open>static_assert\<close> of the class templates admits
  1, 2 and 3 only. A \<open>range\<close> or an \<open>id\<close> of any dimension stores three elements.
\<close>

datatype dimensions = D1 | D2 | D3

fun dim_int :: "dimensions \<Rightarrow> int" where
  "dim_int D1 = 1"
| "dim_int D2 = 2"
| "dim_int D3 = 3"

type_synonym sycl_range = index_array_base
type_synonym sycl_id = index_array_base

subsection \<open>The specialisations \<open>range<1>\<close>, \<open>range<2>\<close>, \<open>range<3>\<close>\<close>

definition range1_default :: sycl_range where
  "range1_default = index_array_operators_ctor 1 1 1"

definition range1 :: "size_t \<Rightarrow> sycl_range" where
  "range1 dim1 = index_array_operators_ctor dim1 1 1"

definition range1_of_index_array :: "index_array \<Rightarrow> sycl_range" where
  "range1_of_index_array indexArray = range1 (idx0 indexArray)"

definition range1_size :: "sycl_range \<Rightarrow> size_t" where
  "range1_size r = idx0 (m_idx r)"

definition range2_default :: sycl_range where
  "range2_default = index_array_operators_ctor 1 1 1"

definition range2 :: "size_t \<Rightarrow> size_t \<Rightarrow> sycl_range" where
  "range2 dim1 dim2 = index_array_operators_ctor dim1 dim2 1"

definition range2_of_index_array :: "index_array \<Rightarrow> sycl_range" where
  "range2_of_index_array indexArray = range2 (idx0 indexArray) (idx1 indexArray)"

definition range2_size :: "sycl_range \<Rightarrow> size_t" where
  "range2_size r = idx0 (m_idx r) * idx1 (m_idx r)"

definition range3_default :: sycl_range where
  "range3_default = index_array_operators_ctor 1 1 1"

definition range3 :: "size_t \<Rightarrow> size_t \<Rightarrow> size_t \<Rightarrow> sycl_range" where
  "range3 dim1 dim2 dim3 = index_array_operators_ctor dim1 dim2 dim3"

definition range3_of_index_array :: "index_array \<Rightarrow> sycl_range" where
  "range3_of_index_array indexArray =
     range3 (idx0 indexArray) (idx1 indexArray) (idx2 indexArray)"

definition range3_size :: "sycl_range \<Rightarrow> size_t" where
  "range3_size r = idx0 (m_idx r) * idx1 (m_idx r) * idx2 (m_idx r)"

text \<open>The members of \<open>range<dimensions>\<close>, selected by the template argument.\<close>

fun range_default :: "dimensions \<Rightarrow> sycl_range" where
  "range_default D1 = range1_default"
| "range_default D2 = range2_default"
| "range_default D3 = range3_default"

fun range_of_index_array :: "dimensions \<Rightarrow> index_array \<Rightarrow> sycl_range" where
  "range_of_index_array D1 indexArray = range1_of_index_array indexArray"
| "range_of_index_array D2 indexArray = range2_of_index_array indexArray"
| "range_of_index_array D3 indexArray = range3_of_index_array indexArray"

fun range_size :: "dimensions \<Rightarrow> sycl_range \<Rightarrow> size_t" where
  "range_size D1 r = range1_size r"
| "range_size D2 r = range2_size r"
| "range_size D3 r = range3_size r"

subsection \<open>The specialisations \<open>id<1>\<close>, \<open>id<2>\<close>, \<open>id<3>\<close>\<close>

definition id1_default :: sycl_id where
  "id1_default = index_array_operators_ctor 0 0 0"

definition id1 :: "size_t \<Rightarrow> sycl_id" where
  "id1 x = index_array_operators_ctor x 0 0"

definition id1_of_index_array :: "index_array \<Rightarrow> sycl_id" where
  "id1_of_index_array indexArray = id1 (idx0 indexArray)"



definition id2_default :: sycl_id where
  "id2_default = index_array_operators_ctor 0 0 0"

definition id2 :: "size_t \<Rightarrow> size_t \<Rightarrow> sycl_id" where
  "id2 x y = index_array_operators_ctor x y 0"

definition id2_of_index_array :: "index_array \<Rightarrow> sycl_id" where
  "id2_of_index_array indexArray = id2 (idx0 indexArray) (idx1 indexArray)"

definition id3_default :: sycl_id where
  "id3_default = index_array_operators_ctor 0 0 0"

definition id3 :: "size_t \<Rightarrow> size_t \<Rightarrow> size_t \<Rightarrow> sycl_id" where
  "id3 x y z = index_array_operators_ctor x y z"

definition id3_of_index_array :: "index_array \<Rightarrow> sycl_id" where
  "id3_of_index_array indexArray =
     id3 (idx0 indexArray) (idx1 indexArray) (idx2 indexArray)"

fun id_default :: "dimensions \<Rightarrow> sycl_id" where
  "id_default D1 = id1_default"
| "id_default D2 = id2_default"
| "id_default D3 = id3_default"

fun id_of_index_array :: "dimensions \<Rightarrow> index_array \<Rightarrow> sycl_id" where
  "id_of_index_array D1 indexArray = id1_of_index_array indexArray"
| "id_of_index_array D2 indexArray = id2_of_index_array indexArray"
| "id_of_index_array D3 indexArray = id3_of_index_array indexArray"

section \<open>Operators of \<open>index_array_operators\<close>\<close>

text \<open>
  The template template argument \<open>Child\<close> is \<open>range\<close> or \<open>id\<close>.
  \<open>index_array_ops_results<dim, C1, C2>::ResTy\<close> is \<open>Class<dim>\<close> for two operands of the
  same class and \<open>id<dim>\<close> for an \<open>id\<close> with a \<open>range\<close>. A local \<open>ResTy result;\<close> is
  default-constructed.
\<close>

datatype child = Range | Id

fun index_array_ops_results :: "child \<Rightarrow> child \<Rightarrow> child" where
  "index_array_ops_results Range Range = Range"
| "index_array_ops_results Id Id = Id"
| "index_array_ops_results Id Range = Id"
| "index_array_ops_results Range Id = Id"

fun default_ctor :: "child \<Rightarrow> dimensions \<Rightarrow> index_array_base" where
  "default_ctor Range dimensions = range_default dimensions"
| "default_ctor Id dimensions = id_default dimensions"

text \<open>The conversion of a \<open>bool\<close> to \<open>size_t\<close> in \<open>result[i] = a[i] op b[i]\<close>.\<close>

definition size_t_of_bool :: "bool \<Rightarrow> size_t" where
  "size_t_of_bool c = (if c then 1 else 0)"

text \<open>The macros \<open>COMPUTECPP_IDX_IDX_OPERATOR\<close> (for an operator that cannot fail, such
  as \<open>+\<close> and \<open>*\<close>) and \<open>COMPUTECPP_IDX_COMPARISON_OPERATOR\<close>.\<close>

definition COMPUTECPP_IDX_IDX_OPERATOR ::
  "dimensions \<Rightarrow> child \<Rightarrow> child \<Rightarrow> (size_t \<Rightarrow> size_t \<Rightarrow> size_t) \<Rightarrow>
   index_array_base \<Rightarrow> index_array_base \<Rightarrow> index_array_base" where
  "COMPUTECPP_IDX_IDX_OPERATOR dimensions C1 C2 op a b =
     (let result = default_ctor (index_array_ops_results C1 C2) dimensions;
          result = put0 (op (at0 a) (at0 b)) result;
          result = (if dim_int dimensions > 1 then put1 (op (at1 a) (at1 b)) result
                    else result);
          result = (if dim_int dimensions > 2 then put2 (op (at2 a) (at2 b)) result
                    else result)
      in result)"

definition COMPUTECPP_IDX_COMPARISON_OPERATOR ::
  "dimensions \<Rightarrow> child \<Rightarrow> child \<Rightarrow> (size_t \<Rightarrow> size_t \<Rightarrow> bool) \<Rightarrow>
   index_array_base \<Rightarrow> index_array_base \<Rightarrow> index_array_base" where
  "COMPUTECPP_IDX_COMPARISON_OPERATOR dimensions C1 C2 op a b =
     (let result = default_ctor (index_array_ops_results C1 C2) dimensions;
          result = put0 (size_t_of_bool (op (at0 a) (at0 b))) result;
          result = (if dim_int dimensions > 1
                    then put1 (size_t_of_bool (op (at1 a) (at1 b))) result else result);
          result = (if dim_int dimensions > 2
                    then put2 (size_t_of_bool (op (at2 a) (at2 b))) result else result)
      in result)"

definition operator_greater ::
  "dimensions \<Rightarrow> child \<Rightarrow> child \<Rightarrow> index_array_base \<Rightarrow> index_array_base \<Rightarrow> index_array_base"
  where "operator_greater dimensions C1 C2 a b =
     COMPUTECPP_IDX_COMPARISON_OPERATOR dimensions C1 C2 (\<lambda>x y. x > y) a b"

definition operator_greater_eq ::
  "dimensions \<Rightarrow> child \<Rightarrow> child \<Rightarrow> index_array_base \<Rightarrow> index_array_base \<Rightarrow> index_array_base"
  where "operator_greater_eq dimensions C1 C2 a b =
     COMPUTECPP_IDX_COMPARISON_OPERATOR dimensions C1 C2 (\<lambda>x y. x \<ge> y) a b"

definition operator_less ::
  "dimensions \<Rightarrow> child \<Rightarrow> child \<Rightarrow> index_array_base \<Rightarrow> index_array_base \<Rightarrow> index_array_base"
  where "operator_less dimensions C1 C2 a b =
     COMPUTECPP_IDX_COMPARISON_OPERATOR dimensions C1 C2 (\<lambda>x y. x < y) a b"

definition operator_less_eq ::
  "dimensions \<Rightarrow> child \<Rightarrow> child \<Rightarrow> index_array_base \<Rightarrow> index_array_base \<Rightarrow> index_array_base"
  where "operator_less_eq dimensions C1 C2 a b =
     COMPUTECPP_IDX_COMPARISON_OPERATOR dimensions C1 C2 (\<lambda>x y. x \<le> y) a b"

definition operator_plus ::
  "dimensions \<Rightarrow> child \<Rightarrow> child \<Rightarrow> index_array_base \<Rightarrow> index_array_base \<Rightarrow> index_array_base"
  where "operator_plus dimensions C1 C2 a b =
     COMPUTECPP_IDX_IDX_OPERATOR dimensions C1 C2 (\<lambda>x y. x + y) a b"

definition operator_times ::
  "dimensions \<Rightarrow> child \<Rightarrow> child \<Rightarrow> index_array_base \<Rightarrow> index_array_base \<Rightarrow> index_array_base"
  where "operator_times dimensions C1 C2 a b =
     COMPUTECPP_IDX_IDX_OPERATOR dimensions C1 C2 (\<lambda>x y. x * y) a b"

section \<open>\<open>info_convert<size_t*, range<3>>\<close>\<close>

text \<open>Modelled from the spec: \<open>COMPUTECPP_CL_ERROR_CODE_MSG\<close> (defined outside the sources).
  With \<open>CL_SUCCESS\<close> and a ComputeCpp error code it raises that error, and the enclosing
  function does not continue.

  A pointer to \<open>size_t\<close> is modelled by the elements seen through it: \<open>clPtr i\<close> is
  \<open>clPtr[i]\<close>. The argument \<open>clParam\<close> is not used by the function.
\<close>

definition COMPUTECPP_CL_ERROR_CODE_MSG :: "error \<Rightarrow> error + unit" where
  "COMPUTECPP_CL_ERROR_CODE_MSG cpp_error_code = Inl cpp_error_code"

definition cl_to_sycl :: "(nat \<Rightarrow> size_t) \<Rightarrow> size_t \<Rightarrow> 32 word \<Rightarrow> error + sycl_range" where
  "cl_to_sycl clPtr numElems clParam =
     bind_result
       (if numElems \<noteq> 3 then COMPUTECPP_CL_ERROR_CODE_MSG TARGET_FORMAT_ERROR else Inr ())
       (\<lambda>_. let syclResult = range3 (clPtr 0) (clPtr 1) (clPtr 2) in Inr syclResult)"

section \<open>Loops over a \<open>size_t\<close> counter\<close>

text \<open>
  \<open>for (size_t i = start; i < n; i++) body\<close>, with the state the body changes passed
  along. The body may fail, which ends the loop. The counter cannot wrap around: it is
  incremented only while it is below \<open>n\<close>.
\<close>

function for_loop ::
  "size_t \<Rightarrow> size_t \<Rightarrow> (size_t \<Rightarrow> 's \<Rightarrow> error + 's) \<Rightarrow> 's \<Rightarrow> error + 's" where
  "for_loop i n body s =
     (if i < n
      then (case body i s of Inl e \<Rightarrow> Inl e | Inr s' \<Rightarrow> for_loop (i + 1) n body s')
      else Inr s)"
  by pat_completeness auto
termination
proof (relation "measure (\<lambda>(i, n, body, s). unat (n - i))")
  show "wf (measure (\<lambda>(i, n, body, s). unat (n - i)))" by simp
next
  fix i n :: size_t and body :: "size_t \<Rightarrow> 's \<Rightarrow> error + 's" and s x2 :: 's
  assume "i < n"
  then have "unat (n - (i + 1)) < unat (n - i)"
    by unat_arith
  then show "((i + 1, n, body, x2), (i, n, body, s)) \<in> measure (\<lambda>(i, n, body, s). unat (n - i))"
    by simp
qed

section \<open>\<open>group<dimensions>\<close>\<close>

text \<open>Modelled from the spec: \<open>detail::group_base\<close> (header \<open>SYCL/group_base.h\<close>, not among
  the sources). \<open>group<dimensions>\<close> reads four index arrays of it, \<open>m_groupID\<close>,
  \<open>m_localRange\<close>, \<open>m_globalRange\<close> and \<open>m_groupRange\<close>; \<open>group_base_ctor\<close> makes the value
  with these four members.
\<close>

record group_base =
  m_groupID :: index_array
  m_localRange :: index_array
  m_globalRange :: index_array
  m_groupRange :: index_array

definition group_base_ctor ::
  "index_array \<Rightarrow> index_array \<Rightarrow> index_array \<Rightarrow> index_array \<Rightarrow> group_base" where
  "group_base_ctor groupID localRange globalRange groupRange =
     \<lparr>m_groupID = groupID, m_localRange = localRange,
      m_globalRange = globalRange, m_groupRange = groupRange\<rparr>"


definition size_t_mod :: "size_t \<Rightarrow> size_t \<Rightarrow> error + size_t" where
  "size_t_mod a b = (if b = 0 then Inl DivisionByZero else Inr (a mod b))"


definition get_id :: "dimensions \<Rightarrow> group_base \<Rightarrow> sycl_id" where
  "get_id dimensions g = id_of_index_array dimensions (m_groupID g)"

definition get_global_range :: "dimensions \<Rightarrow> group_base \<Rightarrow> sycl_range" where
  "get_global_range dimensions g = range_of_index_array dimensions (m_globalRange g)"

definition get_local_range :: "dimensions \<Rightarrow> group_base \<Rightarrow> sycl_range" where
  "get_local_range dimensions g = range_of_index_array dimensions (m_localRange g)"

definition get_group_range :: "dimensions \<Rightarrow> group_base \<Rightarrow> sycl_range" where
  "get_group_range dimensions g = range_of_index_array dimensions (m_groupRange g)"

definition is_zero_id :: "dimensions \<Rightarrow> group_base \<Rightarrow> bool" where
  "is_zero_id dimensions g =
     (let id = get_id dimensions g in (at0 id = 0) \<and> (at1 id = 0) \<and> (at2 id = 0))"

subsection \<open>\<open>parallel_for_work_item\<close>, host implementation\<close>

text \<open>Modelled from the spec: \<open>detail::item_base\<close> and \<open>detail::h_item_base\<close> (headers not among
  the sources) hold what their constructors receive: an id with a range, and the
  logical, the physical and the global item.
\<close>

record item_base =
  item_id :: sycl_id
  item_range :: sycl_range

record h_item_base =
  logical_item :: item_base
  physical_item :: item_base
  global_item :: item_base

definition item_base_ctor :: "sycl_id \<Rightarrow> sycl_range \<Rightarrow> item_base" where
  "item_base_ctor i r = \<lparr>item_id = i, item_range = r\<rparr>"

definition h_item_base_ctor :: "item_base \<Rightarrow> item_base \<Rightarrow> item_base \<Rightarrow> h_item_base" where
  "h_item_base_ctor l p g = \<lparr>logical_item = l, physical_item = p, global_item = g\<rparr>"

text \<open>
  The functor \<open>func\<close> is opaque: a call \<open>func(currentItem)\<close> is recorded by appending
  \<open>currentItem\<close> to the list of calls made so far. The state of the loops is the local
  variable \<open>physicalLocalID\<close> with that list.
\<close>

definition parallel_for_work_item ::
  "dimensions \<Rightarrow> group_base \<Rightarrow> sycl_range \<Rightarrow> error + h_item_base list" where
  "parallel_for_work_item dimensions g flexibleRange =
     (let globalRange = get_global_range dimensions g;
          physicalLocalRange = get_local_range dimensions g;
          groupID = get_id dimensions g;
          globalIdBase = operator_times dimensions Range Id physicalLocalRange groupID;
          physicalLocalID = id_default dimensions
      in bind_result
           (for_loop 0 (at2 flexibleRange)
              (\<lambda>itemZ (physicalLocalID, calls).
                 bind_result (size_t_mod itemZ (at2 physicalLocalRange)) (\<lambda>r2.
                 for_loop 0 (at1 flexibleRange)
                   (\<lambda>itemY (physicalLocalID, calls).
                      bind_result (size_t_mod itemY (at1 physicalLocalRange)) (\<lambda>r1.
                      for_loop 0 (at0 flexibleRange)
                        (\<lambda>itemX (physicalLocalID, calls).
                           bind_result (size_t_mod itemX (at0 physicalLocalRange)) (\<lambda>r0.
                           let physicalLocalID = put0 r0 physicalLocalID;
                               localID = id_of_index_array dimensions
                                           (Index_array itemX itemY itemZ);
                               globalID = operator_plus dimensions Id Id
                                            globalIdBase physicalLocalID;
                               currentItem = h_item_base_ctor
                                 (item_base_ctor localID flexibleRange)
                                 (item_base_ctor physicalLocalID physicalLocalRange)
                                 (item_base_ctor globalID globalRange)
                           in Inr (physicalLocalID, calls @ [currentItem])))
                        (put1 r1 physicalLocalID, calls)))
                   (put2 r2 physicalLocalID, calls)))
              (physicalLocalID, []))
           (\<lambda>(physicalLocalID, calls). Inr calls))"

subsection \<open>\<open>async_work_group_copy\<close>\<close>

text \<open>
  Memory is a map from addresses, counted in elements of \<open>dataT\<close>, to values; a
  \<open>local_ptr\<close> or \<open>global_ptr\<close> is an address. \<open>multi_ptr::operator+\<close> takes a
  \<open>difference_type\<close> (\<open>std::ptrdiff_t\<close>), so that \<open>dest + i\<close> with \<open>i\<close> of type \<open>size_t\<close>
  moves the pointer by \<open>i\<close> read as a signed 64-bit integer.
\<close>

type_synonym 'a memory = "int \<Rightarrow> 'a"
type_synonym pointer = int

definition ptr_plus :: "pointer \<Rightarrow> size_t \<Rightarrow> pointer" where
  "ptr_plus p i = p + sint i"

text \<open>
  The header has two bodies for each overload, chosen by whether the macro
  \<open>__SYCL_DEVICE_ONLY__\<close> is defined. In the device compilation the copy is a call of
  \<open>detail::async_work_group_copy\<close> or \<open>detail::async_work_group_strided_copy\<close>, builtins
  of the device compiler (declared in \<open>SYCL/compiler_hooks.h\<close>, outside the library):
  the model records the call and its arguments. The returned \<open>device_event\<close> wraps the
  event the builtin returned, or is default-constructed.

  The outcome of a call: the event returned, the memory as the statements of the library
  itself leave it (what a recorded builtin does to memory is not part of it), and the
  builtin calls made.
\<close>

datatype compilation = Device_only | Host

datatype direction = Global_to_local | Local_to_global

datatype builtin_call =
    Builtin_async_work_group_copy direction pointer pointer size_t size_t
  | Builtin_async_work_group_strided_copy direction pointer pointer size_t size_t size_t

datatype device_event = Device_event_default | Device_event_of builtin_call

record 'a copy_outcome =
  returned :: device_event
  memory_after :: "'a memory"
  delegated :: "builtin_call list"

text \<open>The strided overloads: global to local (\<open>srcStride\<close>), local to global
  (\<open>destStride\<close>).\<close>

definition async_work_group_copy_strided_to_local ::
  "compilation \<Rightarrow> dimensions \<Rightarrow> group_base \<Rightarrow> pointer \<Rightarrow> pointer \<Rightarrow> size_t \<Rightarrow> size_t \<Rightarrow>
   'a memory \<Rightarrow> error + 'a copy_outcome" where
  "async_work_group_copy_strided_to_local c dimensions g dest src numElements srcStride m =
     (case c of
        Device_only \<Rightarrow>
          (let previousEvent = 0;
               call = Builtin_async_work_group_strided_copy Global_to_local
                        dest src numElements srcStride previousEvent
           in Inr \<lparr>returned = Device_event_of call, memory_after = m, delegated = [call]\<rparr>)
      | Host \<Rightarrow>
          bind_result
            (if is_zero_id dimensions g
             then (let srcIter = 0
                   in bind_result
                        (for_loop 0 numElements
                           (\<lambda>i (srcIter, m).
                              Inr (srcIter + srcStride,
                                   m(ptr_plus dest i := m (ptr_plus src srcIter))))
                           (srcIter, m))
                        (\<lambda>(srcIter, m). Inr m))
             else Inr m)
            (\<lambda>m. Inr \<lparr>returned = Device_event_default, memory_after = m,
                        delegated = []\<rparr>))"

definition async_work_group_copy_strided_to_global ::
  "compilation \<Rightarrow> dimensions \<Rightarrow> group_base \<Rightarrow> pointer \<Rightarrow> pointer \<Rightarrow> size_t \<Rightarrow> size_t \<Rightarrow>
   'a memory \<Rightarrow> error + 'a copy_outcome" where
  "async_work_group_copy_strided_to_global c dimensions g dest src numElements destStride m =
     (case c of
        Device_only \<Rightarrow>
          (let previousEvent = 0;
               call = Builtin_async_work_group_strided_copy Local_to_global
                        dest src numElements destStride previousEvent
           in Inr \<lparr>returned = Device_event_of call, memory_after = m, delegated = [call]\<rparr>)
      | Host \<Rightarrow>
          bind_result
            (if is_zero_id dimensions g
             then (let dstIter = 0
                   in bind_result
                        (for_loop 0 numElements
                           (\<lambda>i (dstIter, m).
                              Inr (dstIter + destStride,
                                   m(ptr_plus dest dstIter := m (ptr_plus src i))))
                           (dstIter, m))
                        (\<lambda>(dstIter, m). Inr m))
             else Inr m)
            (\<lambda>m. Inr \<lparr>returned = Device_event_default, memory_after = m,
                        delegated = []\<rparr>))"

text \<open>The overloads without a stride.\<close>

definition async_work_group_copy_to_local ::
  "compilation \<Rightarrow> dimensions \<Rightarrow> group_base \<Rightarrow> pointer \<Rightarrow> pointer \<Rightarrow> size_t \<Rightarrow>
   'a memory \<Rightarrow> error + 'a copy_outcome" where
  "async_work_group_copy_to_local c dimensions g dest src numElements m =
     (case c of
        Device_only \<Rightarrow>
          (let previousEvent = 0;
               call = Builtin_async_work_group_copy Global_to_local
                        dest src numElements previousEvent
           in Inr \<lparr>returned = Device_event_of call, memory_after = m, delegated = [call]\<rparr>)
      | Host \<Rightarrow>
          (let stride = 1
           in async_work_group_copy_strided_to_local c dimensions g dest src numElements
                stride m))"

definition async_work_group_copy_to_global ::
  "compilation \<Rightarrow> dimensions \<Rightarrow> group_base \<Rightarrow> pointer \<Rightarrow> pointer \<Rightarrow> size_t \<Rightarrow>
   'a memory \<Rightarrow> error + 'a copy_outcome" where
  "async_work_group_copy_to_global c dimensions g dest src numElements m =
     (case c of
        Device_only \<Rightarrow>
          (let previousEvent = 0;
               call = Builtin_async_work_group_copy Local_to_global
                        dest src numElements previousEvent
           in Inr \<lparr>returned = Device_event_of call, memory_after = m, delegated = [call]\<rparr>)
      | Host \<Rightarrow>
          (let stride = 1
           in async_work_group_copy_strided_to_global c dimensions g dest src numElements
                stride m))"

text \<open>A call of \<open>async_work_group_copy\<close> is one of the four overloads with its
  arguments; the address spaces of the two pointers and the presence of the stride
  select the overload.\<close>

datatype copy_call =
    To_local pointer pointer size_t
  | To_global pointer pointer size_t
  | Strided_to_local pointer pointer size_t size_t
  | Strided_to_global pointer pointer size_t size_t

fun async_work_group_copy ::
  "compilation \<Rightarrow> dimensions \<Rightarrow> group_base \<Rightarrow> copy_call \<Rightarrow> 'a memory \<Rightarrow>
   error + 'a copy_outcome" where
  "async_work_group_copy c d g (To_local dest src numElements) m =
     async_work_group_copy_to_local c d g dest src numElements m"
| "async_work_group_copy c d g (To_global dest src numElements) m =
     async_work_group_copy_to_global c d g dest src numElements m"
| "async_work_group_copy c d g (Strided_to_local dest src numElements srcStride) m =
     async_work_group_copy_strided_to_local c d g dest src numElements srcStride m"
| "async_work_group_copy c d g (Strided_to_global dest src numElements destStride) m =
     async_work_group_copy_strided_to_global c d g dest src numElements destStride m"

section \<open>Descriptions used in the statements\<close>

text \<open>
  The values \<open>0, 1, ..., n - 1\<close> a \<open>size_t\<close> counter takes in a loop up to \<open>n\<close>, in
  increasing order, and a loop body run over a list of counter values.
\<close>

definition indices :: "size_t \<Rightarrow> size_t list" where
  "indices n = map word_of_nat [0..<unat n]"

fun fold_result :: "('i \<Rightarrow> 's \<Rightarrow> error + 's) \<Rightarrow> 'i list \<Rightarrow> 's \<Rightarrow> error + 's" where
  "fold_result body [] s = Inr s"
| "fold_result body (i # is) s =
     (case body i s of Inl e \<Rightarrow> Inl e | Inr s' \<Rightarrow> fold_result body is s')"

text \<open>
  The \<open>h_item\<close> that claim C2 describes for the loop index \<open>(x, y, z)\<close>: the logical item
  is the id made of that index with the flexible range; the physical local id is the
  index modulo the physical local range, element by element; the global id is the
  physical local range times the group id plus the physical local id, element by
  element.
\<close>

definition claimed_h_item ::
  "dimensions \<Rightarrow> group_base \<Rightarrow> sycl_range \<Rightarrow> size_t \<Rightarrow> size_t \<Rightarrow> size_t \<Rightarrow> h_item_base" where
  "claimed_h_item d g flexibleRange x y z =
     h_item_base_ctor
       (item_base_ctor (id_of_index_array d (Index_array x y z)) flexibleRange)
       (item_base_ctor
          (index_array_operators_ctor
             (x mod at0 (get_local_range d g))
             (y mod at1 (get_local_range d g))
             (z mod at2 (get_local_range d g)))
          (get_local_range d g))
       (item_base_ctor
          (index_array_operators_ctor
             (at0 (get_local_range d g) * at0 (get_id d g) + x mod at0 (get_local_range d g))
             (at1 (get_local_range d g) * at1 (get_id d g) + y mod at1 (get_local_range d g))
             (at2 (get_local_range d g) * at2 (get_id d g) + z mod at2 (get_local_range d g)))
          (get_global_range d g))"

text \<open>
  The copy, element after element, that the amended claim C1 describes for the host
  compilation: for \<open>i = 0, ..., numElements - 1\<close> in this order, \<open>dest[i] = src[i * srcStride]\<close>
  when copying to local memory and \<open>dest[i * destStride] = src[i]\<close> when copying to global
  memory, the stride being 1 for the overloads without one.
\<close>

fun element_copies :: "copy_call \<Rightarrow> 'a memory \<Rightarrow> 'a memory" where
  "element_copies (To_local dest src numElements) m =
     fold (\<lambda>i m. m(ptr_plus dest i := m (ptr_plus src i))) (indices numElements) m"
| "element_copies (To_global dest src numElements) m =
     fold (\<lambda>i m. m(ptr_plus dest i := m (ptr_plus src i))) (indices numElements) m"
| "element_copies (Strided_to_local dest src numElements srcStride) m =
     fold (\<lambda>i m. m(ptr_plus dest i := m (ptr_plus src (i * srcStride))))
       (indices numElements) m"
| "element_copies (Strided_to_global dest src numElements destStride) m =
     fold (\<lambda>i m. m(ptr_plus dest (i * destStride) := m (ptr_plus src i)))
       (indices numElements) m"

section \<open>Element access\<close>

lemma index_array_subscript_literal:
  "index_array_subscript a 0 = Inr (idx0 a)"
  "index_array_subscript a 1 = Inr (idx1 a)"
  "index_array_subscript a 2 = Inr (idx2 a)"
  by (simp_all add: index_array_subscript_def COMPUTECPP_ASSERT_def bind_result_def
      m_idx_read_def)

lemma index_array_base_subscript_literal:
  "index_array_base_subscript x 0 = Inr (at0 x)"
  "index_array_base_subscript x 1 = Inr (at1 x)"
  "index_array_base_subscript x 2 = Inr (at2 x)"
  by (simp_all add: index_array_base_subscript_def index_array_subscript_literal
      COMPUTECPP_ASSERT_def bind_result_def at0_def at1_def at2_def)

lemma index_array_base_assign_literal:
  "index_array_base_assign x 0 v = Inr (put0 v x)"
  "index_array_base_assign x 1 v = Inr (put1 v x)"
  "index_array_base_assign x 2 v = Inr (put2 v x)"
  by (simp_all add: index_array_base_assign_def index_array_assign_def m_idx_write_def
      COMPUTECPP_ASSERT_def bind_result_def put0_def put1_def put2_def)

text \<open>The three assignments of the constructor \<open>index_array_base(x, y, z)\<close>, on any
  initial content \<open>u\<close>, give the array the model's constructor returns.\<close>

lemma index_array_base_ctor_assignments:
  "bind_result (index_array_base_assign u 0 x) (\<lambda>u0.
   bind_result (index_array_base_assign u0 1 y) (\<lambda>u1.
   index_array_base_assign u1 2 z)) = Inr (index_array_base_ctor x y z)"
  by (simp add: index_array_base_assign_literal bind_result_def put0_def put1_def put2_def
      index_array_base_ctor_def)

lemma at_put:
  "at0 (put0 v x) = v" "at1 (put0 v x) = at1 x" "at2 (put0 v x) = at2 x"
  "at0 (put1 v x) = at0 x" "at1 (put1 v x) = v" "at2 (put1 v x) = at2 x"
  "at0 (put2 v x) = at0 x" "at1 (put2 v x) = at1 x" "at2 (put2 v x) = v"
  by (simp_all add: at0_def at1_def at2_def put0_def put1_def put2_def)

lemma at_ctor:
  "at0 (index_array_operators_ctor x y z) = x"
  "at1 (index_array_operators_ctor x y z) = y"
  "at2 (index_array_operators_ctor x y z) = z"
  by (simp_all add: at0_def at1_def at2_def index_array_operators_ctor_def
      index_array_base_ctor_def)

lemma unat_below_3:
  "(dimension :: unsigned_int) < 3 \<Longrightarrow>
   unat dimension = 0 \<or> unat dimension = 1 \<or> unat dimension = 2"
  by unat_arith

text \<open>
  Claim C7. For an \<open>index_array\<close> and an \<open>index_array_base\<close> holding the elements
  \<open>x\<close>, \<open>y\<close>, \<open>z\<close>, and a \<open>dimension\<close> below 3: the assertion of \<open>operator[]\<close> holds, so
  the error branch is not taken, and the operator gives the stored element with that
  index, \<open>[x, y, z] ! dimension\<close>. The operator returning a reference designates the
  same element: an assignment through it replaces exactly that element.
\<close>

theorem subscript_below_3:
  assumes "dimension < 3"
  shows "COMPUTECPP_ASSERT (dimension < 3) = Inr ()
       \<and> index_array_subscript (Index_array x y z) dimension = Inr ([x, y, z] ! unat dimension)
       \<and> index_array_base_subscript \<lparr>m_idx = Index_array x y z\<rparr> dimension
           = Inr ([x, y, z] ! unat dimension)
       \<and> index_array_assign (Index_array x y z) dimension v
           = Inr (let l = [x, y, z][unat dimension := v] in Index_array (l ! 0) (l ! 1) (l ! 2))
       \<and> index_array_base_assign \<lparr>m_idx = Index_array x y z\<rparr> dimension v
           = Inr (let l = [x, y, z][unat dimension := v]
                  in \<lparr>m_idx = Index_array (l ! 0) (l ! 1) (l ! 2)\<rparr>)"
  using unat_below_3[OF assms] assms
  by (auto simp add: index_array_base_subscript_def index_array_subscript_def
      index_array_base_assign_def index_array_assign_def m_idx_write_def
      COMPUTECPP_ASSERT_def bind_result_def m_idx_read_def Let_def)

theorem subscript_below_3_witness:
  "(1 :: unsigned_int) < 3
   \<and> index_array_subscript (Index_array 7 8 9) 1 = Inr 8
   \<and> index_array_base_subscript \<lparr>m_idx = Index_array 7 8 9\<rparr> 1 = Inr 8
   \<and> index_array_base_assign \<lparr>m_idx = Index_array 7 8 9\<rparr> 1 5
       = Inr \<lparr>m_idx = Index_array 7 5 9\<rparr>"
proof -
  have h: "(1 :: unsigned_int) < 3" by simp
  from subscript_below_3[OF h, of 7 8 9 5] h show ?thesis by simp
qed

section \<open>Ranges and ids\<close>

text \<open>
  Claim C4. \<open>size()\<close> of a \<open>range<d>\<close> is the product of its first \<open>d\<close> elements in
  \<open>size_t\<close> arithmetic, that is the product of their values modulo \<open>2 ^ 64\<close>: \<open>r[0]\<close>
  for \<open>d = 1\<close>, \<open>r[0] * r[1]\<close> for \<open>d = 2\<close>, \<open>r[0] * r[1] * r[2]\<close> for \<open>d = 3\<close>.
\<close>

theorem range_size_product:
  "range_size D1 r = at0 r
   \<and> range_size D2 r = at0 r * at1 r
   \<and> range_size D3 r = at0 r * at1 r * at2 r
   \<and> unat (range_size D1 r) = unat (at0 r)
   \<and> unat (range_size D2 r) = (unat (at0 r) * unat (at1 r)) mod 2 ^ 64
   \<and> unat (range_size D3 r) = (unat (at0 r) * unat (at1 r) * unat (at2 r)) mod 2 ^ 64"
  by (simp add: range1_size_def range2_size_def range3_size_def at0_def at1_def at2_def
      unat_word_ariths mod_mult_left_eq)

theorem range_size_product_witness:
  "range_size D1 (range1 6) = 6
   \<and> range_size D2 (range2 6 7) = 42
   \<and> range_size D3 (range3 6 7 2) = 84
   \<and> range_size D2 (range2 (2 ^ 63) 2) = 0"
  using range_size_product[of "range1 6"] range_size_product[of "range2 6 7"]
    range_size_product[of "range3 6 7 2"] range_size_product[of "range2 (2 ^ 63) 2"]
  by (simp add: range1_def range2_def range3_def at_ctor)

text \<open>
  Claim C5. A default-constructed \<open>range<d>\<close> has every element equal to 1: it is
  \<open>range<1>(1)\<close>, \<open>range<2>(1, 1)\<close> or \<open>range<3>(1, 1, 1)\<close>.
\<close>

theorem range_default_ones:
  "range_default D1 = range1 1
   \<and> range_default D2 = range2 1 1
   \<and> range_default D3 = range3 1 1 1
   \<and> at0 (range_default d) = 1 \<and> at1 (range_default d) = 1 \<and> at2 (range_default d) = 1"
proof -
  have "at0 (range_default d) = 1 \<and> at1 (range_default d) = 1 \<and> at2 (range_default d) = 1"
    by (cases d) (simp_all add: range1_default_def range2_default_def range3_default_def
        at_ctor)
  then show ?thesis
    by (simp add: range1_default_def range2_default_def range3_default_def
        range1_def range2_def range3_def)
qed

theorem range_default_ones_witness:
  "range_default D2 = range2 1 1 \<and> at1 (range_default D1) = 1 \<and> at2 (range_default D2) = 1"
  using range_default_ones[of D1] range_default_ones[of D2]
  by simp

text \<open>
  Claim C6. A default-constructed \<open>id<d>\<close> has every element equal to 0.
\<close>

theorem id_default_zeros:
  "at0 (id_default d) = 0 \<and> at1 (id_default d) = 0 \<and> at2 (id_default d) = 0"
  by (cases d) (simp_all add: id1_default_def id2_default_def id3_default_def at_ctor)

theorem id_default_zeros_witness:
  "at0 (id_default D1) = 0 \<and> at1 (id_default D2) = 0 \<and> at2 (id_default D3) = 0"
  using id_default_zeros[of D1] id_default_zeros[of D2] id_default_zeros[of D3]
  by simp

text \<open>
  Claim C8. \<open>cl_to_sycl\<close> raises \<open>TARGET_FORMAT_ERROR\<close> exactly when \<open>numElems\<close> is not 3,
  and for \<open>numElems = 3\<close> it returns \<open>range<3>(clPtr[0], clPtr[1], clPtr[2])\<close>.
\<close>

theorem cl_to_sycl_target_format:
  "(cl_to_sycl clPtr numElems clParam = Inl TARGET_FORMAT_ERROR \<longleftrightarrow> numElems \<noteq> 3)
   \<and> (numElems = 3 \<longrightarrow>
        cl_to_sycl clPtr numElems clParam = Inr (range3 (clPtr 0) (clPtr 1) (clPtr 2)))"
  by (simp add: cl_to_sycl_def bind_result_def COMPUTECPP_CL_ERROR_CODE_MSG_def)

theorem cl_to_sycl_target_format_witness:
  "cl_to_sycl (\<lambda>i. [64, 32, 16] ! i) 3 0 = Inr (range3 64 32 16)
   \<and> cl_to_sycl (\<lambda>i. [64, 32, 16] ! i) 2 0 = Inl TARGET_FORMAT_ERROR"
  using cl_to_sycl_target_format[of "\<lambda>i. [64, 32, 16] ! i" 3 0]
    cl_to_sycl_target_format[of "\<lambda>i. [64, 32, 16] ! i" 2 0]
  by simp

section \<open>Comparison operators\<close>

lemma default_ctor_components:
  "at0 (default_ctor Range d) = 1" "at1 (default_ctor Range d) = 1"
  "at2 (default_ctor Range d) = 1"
  "at0 (default_ctor Id d) = 0" "at1 (default_ctor Id d) = 0" "at2 (default_ctor Id d) = 0"
  by (cases d; simp add: range1_default_def range2_default_def range3_default_def
        id1_default_def id2_default_def id3_default_def at_ctor)+

lemma comparison_macro_components:
  "at0 (COMPUTECPP_IDX_COMPARISON_OPERATOR d C1 C2 op a b) = size_t_of_bool (op (at0 a) (at0 b))"
  "at1 (COMPUTECPP_IDX_COMPARISON_OPERATOR d C1 C2 op a b) =
     (if dim_int d > 1 then size_t_of_bool (op (at1 a) (at1 b))
      else at1 (default_ctor (index_array_ops_results C1 C2) d))"
  "at2 (COMPUTECPP_IDX_COMPARISON_OPERATOR d C1 C2 op a b) =
     (if dim_int d > 2 then size_t_of_bool (op (at2 a) (at2 b))
      else at2 (default_ctor (index_array_ops_results C1 C2) d))"
  by (simp_all add: COMPUTECPP_IDX_COMPARISON_OPERATOR_def Let_def at_put)

text \<open>
  Claim C9. For two operands of the same index class \<open>C\<close> (\<open>range\<close> or \<open>id\<close>) and the same
  dimension \<open>d\<close>, each of \<open><\<close>, \<open>>\<close>, \<open><=\<close>, \<open>>=\<close> returns an object of the class \<open>C\<close>
  again, whose element \<open>i\<close>, for \<open>i\<close> below \<open>d\<close>, is 1 when the comparison of \<open>a[i]\<close> with
  \<open>b[i]\<close> holds and 0 when it does not: an index object, not one boolean.
\<close>

theorem comparison_componentwise:
  "index_array_ops_results C C = C
   \<and> at0 (operator_less d C C a b) = (if at0 a < at0 b then 1 else 0)
   \<and> at0 (operator_greater d C C a b) = (if at0 a > at0 b then 1 else 0)
   \<and> at0 (operator_less_eq d C C a b) = (if at0 a \<le> at0 b then 1 else 0)
   \<and> at0 (operator_greater_eq d C C a b) = (if at0 a \<ge> at0 b then 1 else 0)
   \<and> (dim_int d > 1 \<longrightarrow>
        at1 (operator_less d C C a b) = (if at1 a < at1 b then 1 else 0)
      \<and> at1 (operator_greater d C C a b) = (if at1 a > at1 b then 1 else 0)
      \<and> at1 (operator_less_eq d C C a b) = (if at1 a \<le> at1 b then 1 else 0)
      \<and> at1 (operator_greater_eq d C C a b) = (if at1 a \<ge> at1 b then 1 else 0))
   \<and> (dim_int d > 2 \<longrightarrow>
        at2 (operator_less d C C a b) = (if at2 a < at2 b then 1 else 0)
      \<and> at2 (operator_greater d C C a b) = (if at2 a > at2 b then 1 else 0)
      \<and> at2 (operator_less_eq d C C a b) = (if at2 a \<le> at2 b then 1 else 0)
      \<and> at2 (operator_greater_eq d C C a b) = (if at2 a \<ge> at2 b then 1 else 0))"
proof -
  have "index_array_ops_results C C = C" by (cases C) simp_all
  then show ?thesis
    by (simp add: operator_less_def operator_greater_def operator_less_eq_def
        operator_greater_eq_def comparison_macro_components size_t_of_bool_def)
qed

theorem comparison_componentwise_witness:
  "dim_int D2 > 1
   \<and> at0 (operator_less D2 Range Range (range2 3 9) (range2 5 4)) = 1
   \<and> at1 (operator_less D2 Range Range (range2 3 9) (range2 5 4)) = 0
   \<and> at1 (operator_greater_eq D2 Range Range (range2 3 9) (range2 5 4)) = 1"
  using comparison_componentwise[of Range D2 "range2 3 9" "range2 5 4"]
  by (simp add: range2_def at_ctor)

section \<open>Groups\<close>




section \<open>Loops\<close>

declare for_loop.simps [simp del]

lemma for_loop_step:
  "i < n \<Longrightarrow> for_loop i n body s =
     (case body i s of Inl e \<Rightarrow> Inl e | Inr s' \<Rightarrow> for_loop (i + 1) n body s')"
  by (subst for_loop.simps) simp

lemma for_loop_stop: "\<not> i < n \<Longrightarrow> for_loop i n body s = Inr s"
  by (subst for_loop.simps) simp

text \<open>The loop runs its body on the counter values from \<open>i\<close> up to \<open>n - 1\<close>, in order.\<close>

lemma for_loop_from:
  "i \<le> n \<Longrightarrow> for_loop i n body s = fold_result body (map word_of_nat [unat i..<unat n]) s"
proof (induction i n body s rule: for_loop.induct)
  case (1 i n body s)
  show ?case
  proof (cases "i < n")
    case True
    then have lt: "unat i < unat n" by (simp add: word_less_nat_alt)
    from True have suc: "unat (i + 1) = Suc (unat i)" by unat_arith
    from True have le: "i + 1 \<le> n" by unat_arith
    have upt: "[unat i..<unat n] = unat i # [unat (i + 1)..<unat n]"
      using lt suc by (simp add: upt_conv_Cons)
    show ?thesis
      using True "1.IH"[OF True _ le]
      by (subst for_loop.simps) (simp add: upt split: sum.splits)
  next
    case False
    with "1.prems" have "i = n" by simp
    then show ?thesis by (subst for_loop.simps) simp
  qed
qed

lemma for_loop_indices: "for_loop 0 n body s = fold_result body (indices n) s"
  using for_loop_from[of 0 n body s] by (simp add: indices_def)

lemma word_of_nat_below:
  "k < unat (n :: size_t) \<Longrightarrow> unat (word_of_nat k :: size_t) = k"
  by (metis of_nat_inverse order_less_trans unsigned_less)

text \<open>\<open>indices n\<close> lists every counter value below \<open>n\<close>, each once.\<close>

lemma indices_enumerate:
  "set (indices n) = {i. i < n}" "distinct (indices n)" "length (indices n) = unat n"
proof -
  show "set (indices n) = {i. i < n}"
  proof (rule set_eqI)
    fix i :: size_t
    show "i \<in> set (indices n) \<longleftrightarrow> i \<in> {i. i < n}"
    proof
      assume "i \<in> set (indices n)"
      then obtain k where "k < unat n" "i = word_of_nat k"
        by (auto simp add: indices_def)
      then show "i \<in> {i. i < n}"
        by (simp add: word_less_nat_alt word_of_nat_below)
    next
      assume "i \<in> {i. i < n}"
      then have "unat i < unat n" by (simp add: word_less_nat_alt)
      then have "unat i \<in> set [0..<unat n]" by simp
      then have "(word_of_nat (unat i) :: size_t) \<in> word_of_nat ` set [0..<unat n]"
        by (rule imageI)
      then show "i \<in> set (indices n)" by (simp add: indices_def)
    qed
  qed
  have "inj_on (word_of_nat :: nat \<Rightarrow> size_t) {0..<unat n}"
    by (rule inj_onI) (metis atLeastLessThan_iff word_of_nat_below)
  then show "distinct (indices n)"
    by (simp add: indices_def distinct_map)
  show "length (indices n) = unat n"
    by (simp add: indices_def)
qed

lemma indices_numeral:
  "indices 0 = []" "indices 1 = [0]" "indices 2 = [0, 1]" "indices 3 = [0, 1, 2]"
  by (simp_all add: indices_def upt_rec)

text \<open>
  A loop whose body, under an invariant \<open>P\<close> of the variable \<open>p\<close>, appends the calls
  \<open>out i\<close> and keeps the invariant, appends the calls of all its iterations in order.
\<close>

lemma fold_result_collect:
  assumes step: "\<And>i p calls. i \<in> set xs \<Longrightarrow> P p \<Longrightarrow>
            \<exists>p'. body i (p, calls) = Inr (p', calls @ out i) \<and> P p'"
    and inv: "P p"
  shows "\<exists>p'. fold_result body xs (p, calls) = Inr (p', calls @ concat (map out xs)) \<and> P p'"
  using step inv
proof (induction xs arbitrary: p calls)
  case Nil
  then show ?case by simp
next
  case (Cons x xs)
  from Cons.prems(1)[of x p calls] Cons.prems(2)
  obtain p1 where b: "body x (p, calls) = Inr (p1, calls @ out x)" and p1: "P p1"
    by auto
  have "\<exists>p'. fold_result body xs (p1, calls @ out x)
          = Inr (p', (calls @ out x) @ concat (map out xs)) \<and> P p'"
    by (rule Cons.IH) (use Cons.prems(1) p1 in auto)
  with b show ?case by simp
qed

lemma concat_singletons: "concat (map (\<lambda>x. [f x]) xs) = map f xs"
  by (induction xs) simp_all

lemma length_nested:
  "length (concat (map (\<lambda>z. concat (map (\<lambda>y. map (f z y) xs) ys)) zs))
     = length xs * length ys * length zs"
proof -
  have inner: "length (concat (map (\<lambda>y. map (f z y) xs) ys)) = length xs * length ys" for z
    by (induction ys) simp_all
  show ?thesis
    by (induction zs) (simp_all add: inner)
qed

section \<open>Work items of a group\<close>

lemma put0_ctor: "put0 v p = index_array_operators_ctor v (at1 p) (at2 p)"
  by (simp add: put0_def index_array_operators_ctor_def index_array_base_ctor_def
      at1_def at2_def)

text \<open>
  The global id the code computes with the operators \<open>*\<close> and \<open>+\<close> of the library, which
  touch the first \<open>d\<close> elements only. In the elements from \<open>d\<close> on, the local range
  read from the group is 1 and the group id is 0, so the formula holds there too.
\<close>

lemma global_id_components:
  assumes "at1 p = y mod at1 (get_local_range d g)"
    and "at2 p = z mod at2 (get_local_range d g)"
  shows "operator_plus d Id Id
           (operator_times d Range Id (get_local_range d g) (get_id d g)) p
         = index_array_operators_ctor
             (at0 (get_local_range d g) * at0 (get_id d g) + at0 p)
             (at1 (get_local_range d g) * at1 (get_id d g) + at1 p)
             (at2 (get_local_range d g) * at2 (get_id d g) + at2 p)"
  using assms
  by (cases d)
     (simp_all add: operator_plus_def operator_times_def COMPUTECPP_IDX_IDX_OPERATOR_def
       Let_def get_local_range_def get_id_def range1_of_index_array_def
       range2_of_index_array_def range3_of_index_array_def id1_of_index_array_def
       id2_of_index_array_def id3_of_index_array_def range1_def range2_def range3_def
       id1_def id2_def id3_def id1_default_def id2_default_def id3_default_def
       at_ctor at_put put0_ctor put1_def put2_def index_array_operators_ctor_def
       index_array_base_ctor_def at0_def at1_def at2_def)

text \<open>
  Claim C2 as it is stated, for every group, fails on a group whose physical local range
  has a zero element: in a one-dimensional group with local range 0 and the flexible
  range 1, the first iteration computes \<open>0 % 0\<close> and \<open>func\<close> is not called.
\<close>

theorem parallel_for_work_item_zero_local_range:
  "parallel_for_work_item D1
      (group_base_ctor (Index_array 0 0 0) (Index_array 0 1 1) (Index_array 4 1 1)
         (Index_array 1 1 1))
      (range1 1)
    = Inl DivisionByZero"
  by (simp add: parallel_for_work_item_def Let_def get_local_range_def get_global_range_def
      get_id_def group_base_ctor_def range1_of_index_array_def range1_def at_ctor at_put
      for_loop_step for_loop_stop size_t_mod_def bind_result_def)

text \<open>
  Claim C2, amended. For a group \<open>g\<close> of dimension \<open>d\<close> whose physical local range has no
  zero element and for every flexible range, the host implementation of
  \<open>parallel_for_work_item\<close> returns, and the calls of \<open>func\<close> it makes are, in order, one
  for each index \<open>(x, y, z)\<close> with \<open>x\<close> below \<open>flexibleRange[0]\<close>, \<open>y\<close> below
  \<open>flexibleRange[1]\<close> and \<open>z\<close> below \<open>flexibleRange[2]\<close>, with \<open>z\<close> outermost and \<open>x\<close>
  innermost. The call for \<open>(x, y, z)\<close> passes the item whose physical local id is
  \<open>(x, y, z)\<close> modulo the physical local range and whose global id is the physical local
  range times the group id plus the physical local id, element by element.
\<close>

theorem parallel_for_work_item_calls:
  assumes nz0: "at0 (get_local_range d g) \<noteq> 0"
    and nz1: "at1 (get_local_range d g) \<noteq> 0"
    and nz2: "at2 (get_local_range d g) \<noteq> 0"
  shows "\<exists>calls. parallel_for_work_item d g flexibleRange = Inr calls
     \<and> calls = concat (map (\<lambda>z. concat (map (\<lambda>y.
                  map (\<lambda>x. claimed_h_item d g flexibleRange x y z)
                    (indices (at0 flexibleRange)))
                  (indices (at1 flexibleRange))))
                (indices (at2 flexibleRange)))
     \<and> length calls
         = unat (at0 flexibleRange) * unat (at1 flexibleRange) * unat (at2 flexibleRange)"
proof -
  define plr where "plr = get_local_range d g"
  define base where "base = operator_times d Range Id plr (get_id d g)"
  define bodyX where "bodyX = (\<lambda>itemZ itemY itemX (physicalLocalID, calls :: h_item_base list).
     bind_result (size_t_mod itemX (at0 plr)) (\<lambda>r0.
       let physicalLocalID = put0 r0 physicalLocalID;
           localID = id_of_index_array d (Index_array itemX itemY itemZ);
           globalID = operator_plus d Id Id base physicalLocalID;
           currentItem = h_item_base_ctor
             (item_base_ctor localID flexibleRange)
             (item_base_ctor physicalLocalID plr)
             (item_base_ctor globalID (get_global_range d g))
       in Inr (physicalLocalID, calls @ [currentItem])))"
  define bodyY where "bodyY = (\<lambda>itemZ itemY (physicalLocalID, calls :: h_item_base list).
     bind_result (size_t_mod itemY (at1 plr)) (\<lambda>r1.
       for_loop 0 (at0 flexibleRange) (bodyX itemZ itemY) (put1 r1 physicalLocalID, calls)))"
  define bodyZ where "bodyZ = (\<lambda>itemZ (physicalLocalID, calls :: h_item_base list).
     bind_result (size_t_mod itemZ (at2 plr)) (\<lambda>r2.
       for_loop 0 (at1 flexibleRange) (bodyY itemZ) (put2 r2 physicalLocalID, calls)))"
  have unfolded: "parallel_for_work_item d g flexibleRange =
      bind_result (for_loop 0 (at2 flexibleRange) bodyZ (id_default d, []))
        (\<lambda>(physicalLocalID, calls). Inr calls)"
    by (simp add: parallel_for_work_item_def Let_def bodyZ_def bodyY_def bodyX_def
        plr_def base_def)
  have stepX: "\<exists>p'. bodyX z y x (p, calls)
          = Inr (p', calls @ [claimed_h_item d g flexibleRange x y z])
          \<and> (at1 p' = y mod at1 plr \<and> at2 p' = z mod at2 plr)"
    if "at1 p = y mod at1 plr \<and> at2 p = z mod at2 plr" for x y z p calls
  proof -
    have "at1 (put0 (x mod at0 plr) p) = y mod at1 plr"
      "at2 (put0 (x mod at0 plr) p) = z mod at2 plr"
      using that by (simp_all add: at_put)
    then have "operator_plus d Id Id base (put0 (x mod at0 plr) p)
        = index_array_operators_ctor
             (at0 plr * at0 (get_id d g) + x mod at0 plr)
             (at1 plr * at1 (get_id d g) + y mod at1 plr)
             (at2 plr * at2 (get_id d g) + z mod at2 plr)"
      unfolding base_def plr_def
      by (simp add: global_id_components[where y = y and z = z] at_put)
    then show ?thesis
      using nz0 that
      by (simp add: bodyX_def size_t_mod_def bind_result_def Let_def claimed_h_item_def
          plr_def[symmetric] put0_ctor at_ctor)
  qed
  have loopX: "\<exists>p'. for_loop 0 (at0 flexibleRange) (bodyX z y) (p, calls)
         = Inr (p', calls @ map (\<lambda>x. claimed_h_item d g flexibleRange x y z)
                               (indices (at0 flexibleRange)))
          \<and> (at1 p' = y mod at1 plr \<and> at2 p' = z mod at2 plr)"
    if "at1 p = y mod at1 plr \<and> at2 p = z mod at2 plr" for y z p calls
    using fold_result_collect[where body = "bodyX z y"
        and P = "\<lambda>p. at1 p = y mod at1 plr \<and> at2 p = z mod at2 plr"
        and out = "\<lambda>x. [claimed_h_item d g flexibleRange x y z]"
        and xs = "indices (at0 flexibleRange)" and p = p and calls = calls,
        OF stepX that]
    by (simp add: for_loop_indices concat_singletons)
  have stepY: "\<exists>p'. bodyY z y (p, calls)
         = Inr (p', calls @ map (\<lambda>x. claimed_h_item d g flexibleRange x y z)
                               (indices (at0 flexibleRange)))
          \<and> at2 p' = z mod at2 plr"
    if "at2 p = z mod at2 plr" for y z p calls
  proof -
    have "at1 (put1 (y mod at1 plr) p) = y mod at1 plr \<and>
          at2 (put1 (y mod at1 plr) p) = z mod at2 plr"
      using that by (simp add: at_put)
    from loopX[OF this, of calls] show ?thesis
      using nz1 by (auto simp add: bodyY_def size_t_mod_def bind_result_def plr_def)
  qed
  have loopY: "\<exists>p'. for_loop 0 (at1 flexibleRange) (bodyY z) (p, calls)
         = Inr (p', calls @ concat (map (\<lambda>y.
                  map (\<lambda>x. claimed_h_item d g flexibleRange x y z)
                    (indices (at0 flexibleRange))) (indices (at1 flexibleRange))))
          \<and> at2 p' = z mod at2 plr"
    if "at2 p = z mod at2 plr" for z p calls
    using fold_result_collect[where body = "bodyY z"
        and P = "\<lambda>p. at2 p = z mod at2 plr"
        and out = "\<lambda>y. map (\<lambda>x. claimed_h_item d g flexibleRange x y z)
                     (indices (at0 flexibleRange))"
        and xs = "indices (at1 flexibleRange)" and p = p and calls = calls,
        OF stepY that]
    by (simp add: for_loop_indices)
  have stepZ: "\<exists>p'. bodyZ z (p, calls)
         = Inr (p', calls @ concat (map (\<lambda>y.
                  map (\<lambda>x. claimed_h_item d g flexibleRange x y z)
                    (indices (at0 flexibleRange))) (indices (at1 flexibleRange))))
          \<and> True" for z p calls
  proof -
    have "at2 (put2 (z mod at2 plr) p) = z mod at2 plr" by (simp add: at_put)
    from loopY[OF this, of calls] show ?thesis
      using nz2 by (auto simp add: bodyZ_def size_t_mod_def bind_result_def plr_def)
  qed
  have loopZ: "\<exists>p'. for_loop 0 (at2 flexibleRange) bodyZ (p, calls)
         = Inr (p', calls @ concat (map (\<lambda>z. concat (map (\<lambda>y.
                 map (\<lambda>x. claimed_h_item d g flexibleRange x y z)
                   (indices (at0 flexibleRange))) (indices (at1 flexibleRange))))
                 (indices (at2 flexibleRange))))
          \<and> True" for p calls
    using fold_result_collect[where body = bodyZ and P = "\<lambda>p. True"
        and out = "\<lambda>z. concat (map (\<lambda>y.
                     map (\<lambda>x. claimed_h_item d g flexibleRange x y z)
                     (indices (at0 flexibleRange))) (indices (at1 flexibleRange)))"
        and xs = "indices (at2 flexibleRange)" and p = p and calls = calls,
        OF stepZ]
    by (simp add: for_loop_indices)
  from loopZ[of "id_default d" "[]"] show ?thesis
    by (auto simp add: unfolded bind_result_def length_nested indices_enumerate(3))
qed

theorem parallel_for_work_item_calls_witness:
  "at0 (get_local_range D2 (group_base_ctor (Index_array 1 0 0) (Index_array 2 2 1)
         (Index_array 4 2 1) (Index_array 2 1 1))) \<noteq> 0
   \<and> at1 (get_local_range D2 (group_base_ctor (Index_array 1 0 0) (Index_array 2 2 1)
         (Index_array 4 2 1) (Index_array 2 1 1))) \<noteq> 0
   \<and> at2 (get_local_range D2 (group_base_ctor (Index_array 1 0 0) (Index_array 2 2 1)
         (Index_array 4 2 1) (Index_array 2 1 1))) \<noteq> 0
   \<and> parallel_for_work_item D2
      (group_base_ctor (Index_array 1 0 0) (Index_array 2 2 1) (Index_array 4 2 1)
         (Index_array 2 1 1))
      (range2 3 2)
    = Inr [h_item_base_ctor (item_base_ctor (id2 0 0) (range2 3 2))
             (item_base_ctor (id2 0 0) (range2 2 2)) (item_base_ctor (id2 2 0) (range2 4 2)),
           h_item_base_ctor (item_base_ctor (id2 1 0) (range2 3 2))
             (item_base_ctor (id2 1 0) (range2 2 2)) (item_base_ctor (id2 3 0) (range2 4 2)),
           h_item_base_ctor (item_base_ctor (id2 2 0) (range2 3 2))
             (item_base_ctor (id2 0 0) (range2 2 2)) (item_base_ctor (id2 2 0) (range2 4 2)),
           h_item_base_ctor (item_base_ctor (id2 0 1) (range2 3 2))
             (item_base_ctor (id2 0 1) (range2 2 2)) (item_base_ctor (id2 2 1) (range2 4 2)),
           h_item_base_ctor (item_base_ctor (id2 1 1) (range2 3 2))
             (item_base_ctor (id2 1 1) (range2 2 2)) (item_base_ctor (id2 3 1) (range2 4 2)),
           h_item_base_ctor (item_base_ctor (id2 2 1) (range2 3 2))
             (item_base_ctor (id2 0 1) (range2 2 2)) (item_base_ctor (id2 2 1) (range2 4 2))]"
proof -
  let ?g = "group_base_ctor (Index_array 1 0 0) (Index_array 2 2 1) (Index_array 4 2 1)
         (Index_array 2 1 1)"
  have lr: "get_local_range D2 ?g = range2 2 2" "get_id D2 ?g = id2 1 0"
    "get_global_range D2 ?g = range2 4 2"
    by (simp_all add: get_local_range_def get_id_def get_global_range_def group_base_ctor_def
      range2_of_index_array_def id2_of_index_array_def)
  have nz: "at0 (get_local_range D2 ?g) \<noteq> 0" "at1 (get_local_range D2 ?g) \<noteq> 0"
    "at2 (get_local_range D2 ?g) \<noteq> 0"
    by (simp_all add: lr range2_def at_ctor)
  from parallel_for_work_item_calls[OF nz, of "range2 3 2"] nz show ?thesis
    by (simp add: claimed_h_item_def lr range2_def id2_def at_ctor indices_numeral
        id2_of_index_array_def)
qed

section \<open>Asynchronous copies of a work group\<close>

text \<open>
  The host loop keeps its running offset equal to the counter times the stride, so
  that iteration \<open>i\<close> does to memory what \<open>wr i (i * stride)\<close> does.
\<close>

lemma fold_result_strided:
  fixes wr :: "size_t \<Rightarrow> size_t \<Rightarrow> 'a memory \<Rightarrow> 'a memory"
  shows "fold_result (\<lambda>i (iter, m). Inr (iter + stride, wr i iter m))
       (map word_of_nat [a..<a + k]) (word_of_nat a * stride, m)
     = Inr (word_of_nat (a + k) * stride,
            fold (\<lambda>i m. wr i (i * stride) m) (map word_of_nat [a..<a + k]) m)"
proof (induction k arbitrary: a m)
  case 0
  then show ?case by simp
next
  case (Suc k)
  have upt: "[a..<a + Suc k] = a # [Suc a..<Suc a + k]"
    by (simp add: upt_conv_Cons)
  have next_iter: "(word_of_nat a :: size_t) * stride + stride = word_of_nat (Suc a) * stride"
    by (simp add: distrib_right)
  let ?body = "\<lambda>i (iter, m). Inr (iter + stride, wr i iter m) :: error + size_t \<times> 'a memory"
  let ?m' = "wr (word_of_nat a) (word_of_nat a * stride) m"
  have "fold_result ?body (map word_of_nat [a..<a + Suc k]) (word_of_nat a * stride, m)
      = fold_result ?body (map word_of_nat [Suc a..<Suc a + k])
          (word_of_nat (Suc a) * stride, ?m')"
    by (subst upt) (simp add: next_iter del: of_nat_Suc)
  also have "\<dots> = Inr (word_of_nat (Suc a + k) * stride,
        fold (\<lambda>i m. wr i (i * stride) m) (map word_of_nat [Suc a..<Suc a + k]) ?m')"
    by (rule Suc.IH)
  also have "fold (\<lambda>i m. wr i (i * stride) m) (map word_of_nat [Suc a..<Suc a + k]) ?m'
      = fold (\<lambda>i m. wr i (i * stride) m) (map word_of_nat [a..<a + Suc k]) m"
    by (subst upt) simp
  finally show ?case by simp
qed

lemma for_loop_strided:
  fixes wr :: "size_t \<Rightarrow> size_t \<Rightarrow> 'a memory \<Rightarrow> 'a memory"
  shows "for_loop 0 n (\<lambda>i (iter, m). Inr (iter + stride, wr i iter m)) (0, m)
     = Inr (n * stride, fold (\<lambda>i m. wr i (i * stride) m) (indices n) m)"
  using fold_result_strided[of stride wr 0 "unat n" m]
  by (simp add: for_loop_indices indices_def)

lemma strided_to_local_host:
  "async_work_group_copy_strided_to_local Host d g dest src n stride m =
     Inr \<lparr>returned = Device_event_default,
          memory_after = (if is_zero_id d g
             then element_copies (Strided_to_local dest src n stride) m else m),
          delegated = []\<rparr>"
  by (simp add: async_work_group_copy_strided_to_local_def bind_result_def
      for_loop_strided[where wr = "\<lambda>i iter m. m(ptr_plus dest i := m (ptr_plus src iter))"])

lemma strided_to_global_host:
  "async_work_group_copy_strided_to_global Host d g dest src n stride m =
     Inr \<lparr>returned = Device_event_default,
          memory_after = (if is_zero_id d g
             then element_copies (Strided_to_global dest src n stride) m else m),
          delegated = []\<rparr>"
  by (simp add: async_work_group_copy_strided_to_global_def bind_result_def
      for_loop_strided[where wr = "\<lambda>i iter m. m(ptr_plus dest iter := m (ptr_plus src i))"])

lemma is_zero_id_example:
  "is_zero_id D1 (group_base_ctor (Index_array 0 0 0) (Index_array 4 1 1)
      (Index_array 8 1 1) (Index_array 2 1 1))"
  "\<not> is_zero_id D1 (group_base_ctor (Index_array 1 0 0) (Index_array 4 1 1)
      (Index_array 8 1 1) (Index_array 2 1 1))"
  by (simp_all add: is_zero_id_def get_id_def group_base_ctor_def id1_of_index_array_def
      id1_def at_ctor)

text \<open>
  Claim C1 as it is stated, for every call, fails in the host compilation: for the group
  with id 0 the library's own loop copies the elements, and no builtin is called. Here
  memory holds at each address the address itself, and two elements are copied from
  address 10 to address 0.
\<close>

theorem async_work_group_copy_host_copies:
  "async_work_group_copy Host D1
      (group_base_ctor (Index_array 0 0 0) (Index_array 4 1 1) (Index_array 8 1 1)
         (Index_array 2 1 1))
      (To_local 0 10 2) id
    = Inr \<lparr>returned = Device_event_default, memory_after = id(0 := 10, 1 := 11),
           delegated = []\<rparr>
   \<and> (id(0 := 10, 1 := 11 :: int)) (0 :: int) \<noteq> id 0"
proof -
  have ptrs: "ptr_plus 0 0 = 0" "ptr_plus 10 0 = 10" "ptr_plus 10 1 = 11" "ptr_plus 0 1 = 1"
    by (simp_all add: ptr_plus_def)
  show ?thesis
    using is_zero_id_example(1)
    by (simp add: async_work_group_copy_to_local_def strided_to_local_host
        indices_numeral ptrs)
qed

text \<open>
  Claim C1, amended. In the device compilation every call of \<open>async_work_group_copy\<close>, in
  any dimension, is one call of the compiler's builtin with the arguments of the call
  and the previous event 0: \<open>detail::async_work_group_copy\<close> for the two overloads
  without a stride and \<open>detail::async_work_group_strided_copy\<close>, with the stride, for the
  two with one, from global to local or from local to global memory as the overload
  says. The event of the builtin is returned and the library's own code moves no
  element. In the host compilation no builtin is called: the library's own loop copies
  the elements one after the other when the id of the group is zero, and nothing is
  copied for another group.
\<close>

theorem async_work_group_copy_delegation:
  "async_work_group_copy Device_only d g (To_local dest src numElements) m
     = Inr \<lparr>returned = Device_event_of
                (Builtin_async_work_group_copy Global_to_local dest src numElements 0),
            memory_after = m,
            delegated = [Builtin_async_work_group_copy Global_to_local dest src numElements 0]\<rparr>
   \<and> async_work_group_copy Device_only d g (To_global dest src numElements) m
     = Inr \<lparr>returned = Device_event_of
                (Builtin_async_work_group_copy Local_to_global dest src numElements 0),
            memory_after = m,
            delegated = [Builtin_async_work_group_copy Local_to_global dest src numElements 0]\<rparr>
   \<and> async_work_group_copy Device_only d g (Strided_to_local dest src numElements stride) m
     = Inr \<lparr>returned = Device_event_of
                (Builtin_async_work_group_strided_copy Global_to_local dest src numElements
                   stride 0),
            memory_after = m,
            delegated = [Builtin_async_work_group_strided_copy Global_to_local dest src
                           numElements stride 0]\<rparr>
   \<and> async_work_group_copy Device_only d g (Strided_to_global dest src numElements stride) m
     = Inr \<lparr>returned = Device_event_of
                (Builtin_async_work_group_strided_copy Local_to_global dest src numElements
                   stride 0),
            memory_after = m,
            delegated = [Builtin_async_work_group_strided_copy Local_to_global dest src
                           numElements stride 0]\<rparr>
   \<and> async_work_group_copy Host d g call m
     = Inr \<lparr>returned = Device_event_default,
            memory_after = (if is_zero_id d g then element_copies call m else m),
            delegated = []\<rparr>"
proof -
  have device:
    "async_work_group_copy Device_only d g (To_local dest src numElements) m
       = Inr \<lparr>returned = Device_event_of
                  (Builtin_async_work_group_copy Global_to_local dest src numElements 0),
              memory_after = m,
              delegated = [Builtin_async_work_group_copy Global_to_local dest src
                             numElements 0]\<rparr>"
    "async_work_group_copy Device_only d g (To_global dest src numElements) m
       = Inr \<lparr>returned = Device_event_of
                  (Builtin_async_work_group_copy Local_to_global dest src numElements 0),
              memory_after = m,
              delegated = [Builtin_async_work_group_copy Local_to_global dest src
                             numElements 0]\<rparr>"
    "async_work_group_copy Device_only d g (Strided_to_local dest src numElements stride) m
       = Inr \<lparr>returned = Device_event_of
                  (Builtin_async_work_group_strided_copy Global_to_local dest src numElements
                     stride 0),
              memory_after = m,
              delegated = [Builtin_async_work_group_strided_copy Global_to_local dest src
                             numElements stride 0]\<rparr>"
    "async_work_group_copy Device_only d g (Strided_to_global dest src numElements stride) m
       = Inr \<lparr>returned = Device_event_of
                  (Builtin_async_work_group_strided_copy Local_to_global dest src numElements
                     stride 0),
              memory_after = m,
              delegated = [Builtin_async_work_group_strided_copy Local_to_global dest src
                             numElements stride 0]\<rparr>"
    by (simp_all add: async_work_group_copy_to_local_def async_work_group_copy_to_global_def
        async_work_group_copy_strided_to_local_def
        async_work_group_copy_strided_to_global_def Let_def)
  have host: "async_work_group_copy Host d g call m
     = Inr \<lparr>returned = Device_event_default,
            memory_after = (if is_zero_id d g then element_copies call m else m),
            delegated = []\<rparr>"
  proof (cases call)
    case (To_local dest src n)
    then show ?thesis
      by (simp add: async_work_group_copy_to_local_def strided_to_local_host)
  next
    case (To_global dest src n)
    then show ?thesis
      by (simp add: async_work_group_copy_to_global_def strided_to_global_host)
  next
    case (Strided_to_local dest src n stride)
    then show ?thesis by (simp add: strided_to_local_host)
  next
    case (Strided_to_global dest src n stride)
    then show ?thesis by (simp add: strided_to_global_host)
  qed
  from device host show ?thesis by simp
qed

theorem async_work_group_copy_delegation_witness:
  "async_work_group_copy Host D1
      (group_base_ctor (Index_array 0 0 0) (Index_array 4 1 1) (Index_array 8 1 1)
         (Index_array 2 1 1))
      (Strided_to_global 0 10 2 3) id
    = Inr \<lparr>returned = Device_event_default, memory_after = id(0 := 10, 3 := 11),
           delegated = []\<rparr>
   \<and> async_work_group_copy Host D1
      (group_base_ctor (Index_array 1 0 0) (Index_array 4 1 1) (Index_array 8 1 1)
         (Index_array 2 1 1))
      (Strided_to_global 0 10 2 3) id
    = Inr \<lparr>returned = Device_event_default, memory_after = id, delegated = []\<rparr>
   \<and> async_work_group_copy Device_only D1
      (group_base_ctor (Index_array 0 0 0) (Index_array 4 1 1) (Index_array 8 1 1)
         (Index_array 2 1 1))
      (Strided_to_global 0 10 2 3) id
    = Inr \<lparr>returned = Device_event_of
               (Builtin_async_work_group_strided_copy Local_to_global 0 10 2 3 0),
           memory_after = id,
           delegated = [Builtin_async_work_group_strided_copy Local_to_global 0 10 2 3 0]\<rparr>
   \<and> async_work_group_copy Device_only D1
      (group_base_ctor (Index_array 0 0 0) (Index_array 4 1 1) (Index_array 8 1 1)
         (Index_array 2 1 1))
      (To_local 0 10 2) id
    = Inr \<lparr>returned = Device_event_of (Builtin_async_work_group_copy Global_to_local 0 10 2 0),
           memory_after = id,
           delegated = [Builtin_async_work_group_copy Global_to_local 0 10 2 0]\<rparr>"
proof -
  let ?g0 = "group_base_ctor (Index_array 0 0 0) (Index_array 4 1 1)
           (Index_array 8 1 1) (Index_array 2 1 1)"
  let ?g1 = "group_base_ctor (Index_array 1 0 0) (Index_array 4 1 1)
           (Index_array 8 1 1) (Index_array 2 1 1)"
  have ptrs: "ptr_plus 0 0 = 0" "ptr_plus 10 0 = 10" "ptr_plus 10 1 = 11" "ptr_plus 0 3 = 3"
    by (simp_all add: ptr_plus_def)
  show ?thesis
    using async_work_group_copy_delegation[where d = D1 and g = ?g0 and dest = 0
        and src = 10 and numElements = 2 and stride = 3 and m = id
        and call = "Strided_to_global 0 10 2 3"]
      async_work_group_copy_delegation[where d = D1 and g = ?g1 and dest = 0
        and src = 10 and numElements = 2 and stride = 3 and m = id
        and call = "Strided_to_global 0 10 2 3"]
      is_zero_id_example
    by (simp add: indices_numeral ptrs del: async_work_group_copy.simps)
qed

end
